theory Spec2Isabelle
  imports Main "HOL-Library.AList" "HOL-Library.Word"
begin

section \<open>Data model of the agent receiver\<close>

text \<open>
  The development embeds \<^verbatim>\<open>agent_receiver/endpoints.py\<close>. The endpoints work on
  three kinds of state: the site's file system (agent output and the requests for
  registration), the site itself, reached through its REST interface, and one cached value of
  the process. All three are fields of the record \<open>world\<close>; every endpoint takes a world
  and returns its result together with the world it leaves behind. A raised exception is the
  \<open>Inl\<close> branch of the result.
\<close>

type_synonym byte = "8 word"
type_synonym bytes = "byte list"

text \<open>A path is the list of its components below the root; the root is \<open>[]\<close>.\<close>

type_synonym path = "string list"

text \<open>
  A UUID is represented by its canonical textual form, the string that Python's \<open>str(uuid)\<close>
  returns.
\<close>

datatype uuid = UUID string

fun str_uuid :: "uuid \<Rightarrow> string" where
  "str_uuid (UUID s) = s"

datatype ConnectionMode = PULL | PUSH

datatype RegistrationStatusEnum = NEW | DECLINED | READY | DISCOVERABLE

text \<open>The attribute \<open>.name\<close> of a member of the status enumeration.\<close>

fun status_name :: "RegistrationStatusEnum \<Rightarrow> string" where
  "status_name NEW = ''NEW''"
| "status_name DECLINED = ''DECLINED''"
| "status_name READY = ''READY''"
| "status_name DISCOVERABLE = ''DISCOVERABLE''"

text \<open>
  Exceptions. \<open>HTTPException\<close> carries the status code and the detail; the others are the
  operating-system errors of the file operations the endpoints use. \<open>OSError\<close> stands for
  an operating-system error outside that list.
\<close>

datatype error =
    HTTPException nat string
  | FileNotFoundError
  | FileExistsError
  | NotADirectoryError
  | IsADirectoryError
  | OSError

datatype Response = Response nat

definition HTTP_204_NO_CONTENT :: nat where "HTTP_204_NO_CONTENT = 204"
definition HTTP_400_BAD_REQUEST :: nat where "HTTP_400_BAD_REQUEST = 400"
definition HTTP_403_FORBIDDEN :: nat where "HTTP_403_FORBIDDEN = 403"
definition HTTP_501_NOT_IMPLEMENTED :: nat where "HTTP_501_NOT_IMPLEMENTED = 501"

datatype csr = CSR string

datatype Certificate = Certificate string

record HTTPBasicCredentials =
  username :: string
  password :: string

record CsrField =
  csr :: csr

record RegisterExistingBody =
  reb_uuid :: uuid
  reb_csr :: CsrField
  reb_host_name :: string

record RegisterExistingResponse =
  rer_root_cert :: string
  rer_agent_cert :: string
  rer_connection_mode :: ConnectionMode

record RegistrationWithHNBody =
  hnb_uuid :: uuid
  hnb_host_name :: string

record RegistrationWithLabelsBody =
  lb_uuid :: uuid
  lb_agent_labels :: "(string \<times> string) list"

record CertificateRenewalBody =
  crb_csr :: CsrField

record RenewCertResponse =
  rcr_agent_cert :: string

record HostConfiguration =
  site :: string
  is_cluster :: bool

record RegisteredHost =
  name :: string
  connection_mode :: ConnectionMode
  source_path :: path

text \<open>
  A request for registration and its optional rejection notice (the value of the method
  \<open>rejection_notice()\<close>).
\<close>

record RequestForRegistration =
  rfr_uuid :: uuid
  rfr_username :: string
  rfr_agent_labels :: "(string \<times> string) list"
  rejection_notice :: "string option"

record R4R =
  r4r_status :: RegistrationStatusEnum
  r4r_request :: RequestForRegistration

record RegistrationStatus =
  rs_hostname :: "string option"
  rs_status :: "RegistrationStatusEnum option"
  rs_type :: "ConnectionMode option"
  rs_message :: "string option"

record CMKEdition =
  edition_value :: string
  supports_registration_with_labels :: bool

section \<open>The file system\<close>

text \<open>
  A file system is an association list from paths to nodes. A regular file carries the number
  of its inode and its bytes: an open file refers to its inode, not to its name, so data
  written through an open file reaches the file under whatever name it has by then. Symbolic
  links are not modelled, hence \<open>Path.resolve()\<close> is the identity.
\<close>

datatype node = Dir | File nat bytes

type_synonym filesystem = "(path \<times> node) list"

definition is_dir :: "filesystem \<Rightarrow> path \<Rightarrow> bool" where
  "is_dir fs p \<longleftrightarrow> p = [] \<or> map_of fs p = Some Dir"

definition read_file :: "filesystem \<Rightarrow> path \<Rightarrow> bytes option" where
  "read_file fs p = (case map_of fs p of Some (File i c) \<Rightarrow> Some c | _ \<Rightarrow> None)"

text \<open>An inode number that no file of the file system uses.\<close>

fun fresh_ino :: "filesystem \<Rightarrow> nat" where
  "fresh_ino [] = 0"
| "fresh_ino ((p, Dir) # fs) = fresh_ino fs"
| "fresh_ino ((p, File i c) # fs) = max (Suc i) (fresh_ino fs)"

text \<open>
  \<open>Path.mkdir(parents=True, exist_ok=True)\<close>: every missing directory on the way is
  created; a regular file on the way is an error, and then nothing is created.
\<close>

fun makedirs :: "path \<Rightarrow> path \<Rightarrow> filesystem \<Rightarrow> error + filesystem" where
  "makedirs pre [] fs = Inr fs"
| "makedirs pre (c # cs) fs =
     (case map_of fs (pre @ [c]) of
        Some (File i d) \<Rightarrow> Inl (if cs = [] then FileExistsError else NotADirectoryError)
      | Some Dir \<Rightarrow> makedirs (pre @ [c]) cs fs
      | None \<Rightarrow> makedirs (pre @ [c]) cs (AList.update (pre @ [c]) Dir fs))"

definition mkdir_parents :: "path \<Rightarrow> filesystem \<Rightarrow> error + filesystem" where
  "mkdir_parents p fs = makedirs [] p fs"

text \<open>\<open>Path.mkdir(exist_ok=True)\<close>: the parent has to exist.\<close>

definition mkdir_exist_ok :: "path \<Rightarrow> filesystem \<Rightarrow> error + filesystem" where
  "mkdir_exist_ok p fs =
     (case map_of fs p of
        Some Dir \<Rightarrow> Inr fs
      | Some (File i d) \<Rightarrow> Inl FileExistsError
      | None \<Rightarrow>
          if p = [] then Inr fs
          else if is_dir fs (butlast p) then Inr (AList.update p Dir fs)
          else (case map_of fs (butlast p) of
                  Some (File i d) \<Rightarrow> Inl NotADirectoryError
                | _ \<Rightarrow> Inl FileNotFoundError))"

text \<open>
  \<open>os.rename\<close> of a regular file: the name \<open>src\<close> disappears and \<open>dst\<close> names the
  inode, in one step, replacing a regular file that was there. Moving a directory tree is
  outside the model and reported as \<open>OSError\<close>.
\<close>

definition os_rename :: "path \<Rightarrow> path \<Rightarrow> filesystem \<Rightarrow> error + filesystem" where
  "os_rename src dst fs =
     (case map_of fs src of
        None \<Rightarrow> Inl FileNotFoundError
      | Some Dir \<Rightarrow> Inl OSError
      | Some (File i c) \<Rightarrow>
          if \<not> is_dir fs (butlast dst) then
            (case map_of fs (butlast dst) of
               Some (File j d) \<Rightarrow> Inl NotADirectoryError
             | _ \<Rightarrow> Inl FileNotFoundError)
          else (case map_of fs dst of
                  Some Dir \<Rightarrow> Inl IsADirectoryError
                | _ \<Rightarrow> Inr (AList.update dst (File i c) (AList.delete src fs))))"

text \<open>\<open>Path.unlink(missing_ok=True)\<close>.\<close>

definition unlink_missing_ok :: "path \<Rightarrow> filesystem \<Rightarrow> error + filesystem" where
  "unlink_missing_ok p fs =
     (case map_of fs p of
        None \<Rightarrow> Inr fs
      | Some Dir \<Rightarrow> Inl IsADirectoryError
      | Some (File i c) \<Rightarrow> Inr (AList.delete p fs))"

text \<open>Bytes written through a file descriptor are appended to its inode.\<close>

definition raw_write :: "nat \<Rightarrow> bytes \<Rightarrow> filesystem \<Rightarrow> filesystem" where
  "raw_write i d fs =
     map (\<lambda>(p, n). (p, case n of Dir \<Rightarrow> Dir
                              | File j c \<Rightarrow> if j = i then File j (c @ d) else File j c)) fs"

section \<open>The environment and the world\<close>

text \<open>
  \<open>env\<close> collects what the endpoints import from modules whose code is not part of the
  sources at hand: the certificate functions of \<open>certs\<close>, the answers of the site's REST
  interface (\<open>checkmk_rest_api\<close>), the site context, the codecs of \<open>decompression\<close>,
  the JSON form of a request for registration, and two facts about the Python runtime: the
  size of the buffer of a binary file object, and the sequence of random names that
  \<open>tempfile\<close> tries.
\<close>

record env =
  site_name :: string
  r4r_dir :: path
  internal_credentials :: HTTPBasicCredentials
  extract_cn_from_csr :: "csr \<Rightarrow> string"
  cert_sign_agent_csr :: "csr \<Rightarrow> nat \<Rightarrow> Certificate"
  serialize_to_pem :: "Certificate \<Rightarrow> string"
  settings_answer :: "HTTPBasicCredentials \<Rightarrow> error + nat"
  register_answer :: "HTTPBasicCredentials \<Rightarrow> uuid \<Rightarrow> string \<Rightarrow> error + ConnectionMode"
  host_configuration_answer :: "HTTPBasicCredentials \<Rightarrow> string \<Rightarrow> error + HostConfiguration"
  link_answer :: "HTTPBasicCredentials \<Rightarrow> string \<Rightarrow> uuid \<Rightarrow> error option"
  edition_answer :: "HTTPBasicCredentials \<Rightarrow> error + CMKEdition"
  Decompressor :: "string \<Rightarrow> (bytes \<Rightarrow> bytes option) option"
  request_json :: "RequestForRegistration \<Rightarrow> bytes"
  parse_request :: "bytes \<Rightarrow> RequestForRegistration option"
  buffer_size :: nat
  random_names :: "string list"

text \<open>The requests the endpoints send to the site, in the order they are sent.\<close>

datatype api_call =
    ControllerCertificateSettings HTTPBasicCredentials
  | Register HTTPBasicCredentials uuid string
  | GetHostConfiguration HTTPBasicCredentials string
  | LinkHostWithUuid HTTPBasicCredentials string uuid
  | GetEdition HTTPBasicCredentials

text \<open>
  The world: the file system, the registry of linked hosts as the receiver sees it, the log of
  requests sent to the site, the log of signed certificate requests (with the lifetime in
  months), the site's root certificate as stored at the site, and the cache that
  \<open>lru_cache\<close> attaches to \<open>_pem_serizialized_site_root_cert\<close> together with the number
  of times the cached function body has run.
\<close>

record world =
  files :: filesystem
  registry :: "uuid \<Rightarrow> RegisteredHost option"
  api_calls :: "api_call list"
  signed :: "(csr \<times> nat) list"
  root_ca :: Certificate
  pem_cache :: "string option"
  pem_computed :: nat

section \<open>Storing agent data\<close>

text \<open>
  The object that \<open>tempfile.NamedTemporaryFile(dir=..., delete=False)\<close> returns: a
  buffered binary file with a name. The name is \<open>tmp\<close> followed by the first random name
  that is not taken in the directory; the file is created empty.
\<close>

record tempfile =
  tf_name :: path
  tf_ino :: nat
  tf_buffer :: bytes

definition NamedTemporaryFile :: "env \<Rightarrow> path \<Rightarrow> filesystem \<Rightarrow> error + (tempfile \<times> filesystem)" where
  "NamedTemporaryFile env dir fs =
     (if \<not> is_dir fs dir then
        (case map_of fs dir of
           Some (File j d) \<Rightarrow> Inl NotADirectoryError
         | _ \<Rightarrow> Inl FileNotFoundError)
      else
        (case find (\<lambda>n. map_of fs (dir @ [n]) = None)
                (map (\<lambda>s. ''tmp'' @ s) (random_names env)) of
           None \<Rightarrow> Inl FileExistsError
         | Some n \<Rightarrow>
             Inr (\<lparr>tf_name = dir @ [n], tf_ino = fresh_ino fs, tf_buffer = []\<rparr>,
                  AList.update (dir @ [n]) (File (fresh_ino fs) []) fs)))"

text \<open>
  \<open>write\<close> of a buffered file object: data that fit into the buffer stay in the buffer
  and do not reach the file; otherwise the buffer and the data are written through.
  \<open>close\<close> writes the buffer out.
\<close>

definition tf_write :: "env \<Rightarrow> tempfile \<Rightarrow> bytes \<Rightarrow> filesystem \<Rightarrow> tempfile \<times> filesystem" where
  "tf_write env tf d fs =
     (if length (tf_buffer tf) + length d \<le> buffer_size env
      then (tf\<lparr>tf_buffer := tf_buffer tf @ d\<rparr>, fs)
      else (tf\<lparr>tf_buffer := []\<rparr>, raw_write (tf_ino tf) (tf_buffer tf @ d) fs))"

definition tf_close :: "tempfile \<Rightarrow> filesystem \<Rightarrow> filesystem" where
  "tf_close tf fs = raw_write (tf_ino tf) (tf_buffer tf) fs"

text \<open>
  \<open>_store_agent_data\<close>, statement by statement. The second component lists the file
  system after each file operation that was executed: \<open>mkdir\<close>, the creation of the
  temporary file, \<open>write\<close>, \<open>os.rename\<close>, \<open>unlink\<close> in the \<open>finally\<close> clause, and
  the \<open>close\<close> on leaving the \<open>with\<close> block. An exception raised in the \<open>finally\<close>
  clause replaces the one of the \<open>try\<close> block.
\<close>

definition store_agent_data_steps ::
  "env \<Rightarrow> path \<Rightarrow> bytes \<Rightarrow> filesystem \<Rightarrow> (error + unit) \<times> filesystem list" where
  "store_agent_data_steps env target_dir decompressed_data fs0 =
     (case mkdir_parents target_dir fs0 of
        Inl e \<Rightarrow> (Inl e, [])
      | Inr fs1 \<Rightarrow>
         (case NamedTemporaryFile env target_dir fs1 of
            Inl e \<Rightarrow> (Inl e, [fs1])
          | Inr (temp_file0, fs2) \<Rightarrow>
             (let (temp_file, fs3) = tf_write env temp_file0 decompressed_data fs2;
                  (body, fs4) =
                     (case os_rename (tf_name temp_file) (target_dir @ [''agent_output'']) fs3 of
                        Inl e \<Rightarrow> (Inl e, fs3)
                      | Inr fs \<Rightarrow> (Inr (), fs));
                  (outcome, fs5) =
                     (case unlink_missing_ok (tf_name temp_file) fs4 of
                        Inl e \<Rightarrow> (Inl e, fs4)
                      | Inr fs \<Rightarrow> (body, fs));
                  fs6 = tf_close temp_file fs5
              in (outcome, [fs1, fs2, fs3, fs4, fs5, fs6]))))"

definition store_agent_data :: "env \<Rightarrow> path \<Rightarrow> bytes \<Rightarrow> filesystem \<Rightarrow> (error + unit) \<times> filesystem" where
  "store_agent_data env target_dir decompressed_data fs =
     (case store_agent_data_steps env target_dir decompressed_data fs of
        (outcome, steps) \<Rightarrow> (outcome, last (fs # steps)))"

text \<open>
  \<open>_move_ready_file\<close>: the directory of the bucket \<open>DISCOVERABLE\<close> is created if
  missing, then the record is renamed; \<open>FileNotFoundError\<close> of the renaming is suppressed.
\<close>

definition r4r_path :: "env \<Rightarrow> RegistrationStatusEnum \<Rightarrow> uuid \<Rightarrow> path" where
  "r4r_path env st u = r4r_dir env @ [status_name st, str_uuid u @ ''.json'']"

definition move_ready_file :: "env \<Rightarrow> uuid \<Rightarrow> filesystem \<Rightarrow> (error + unit) \<times> filesystem" where
  "move_ready_file env u fs =
     (case mkdir_exist_ok (r4r_dir env @ [status_name DISCOVERABLE]) fs of
        Inl e \<Rightarrow> (Inl e, fs)
      | Inr fs1 \<Rightarrow>
         (case os_rename (r4r_dir env @ [status_name READY, str_uuid u @ ''.json''])
                 (r4r_dir env @ [status_name DISCOVERABLE] @ [str_uuid u @ ''.json'']) fs1 of
            Inl FileNotFoundError \<Rightarrow> (Inr (), fs1)
          | Inl e \<Rightarrow> (Inl e, fs1)
          | Inr fs2 \<Rightarrow> (Inr (), fs2)))"

section \<open>The endpoint for agent data\<close>

text \<open>
  Modelled from the spec: the class \<open>RegisteredHost\<close> of \<open>agent_receiver.utils\<close>, whose
  code is missing. The spec describes it as the resolution of an identity to a host with
  name, connection mode and storage path, or to "not registered"
  (\<open>NotRegisteredException\<close>, here \<open>None\<close>).
\<close>

definition RegisteredHost_of :: "world \<Rightarrow> uuid \<Rightarrow> RegisteredHost option" where
  "RegisteredHost_of w u = registry w u"

definition agent_data :: "env \<Rightarrow> uuid \<Rightarrow> string \<Rightarrow> bytes \<Rightarrow> world \<Rightarrow> (error + Response) \<times> world" where
  "agent_data env u compression monitoring_data w =
     (case RegisteredHost_of w u of
        None \<Rightarrow> (Inl (HTTPException HTTP_403_FORBIDDEN ''Host is not registered''), w)
      | Some host \<Rightarrow>
         if connection_mode host \<noteq> PUSH then
           (Inl (HTTPException HTTP_403_FORBIDDEN ''Host is not a push host''), w)
         else
          (case Decompressor env compression of
             None \<Rightarrow>
               (Inl (HTTPException 400 (''Unsupported compression algorithm: '' @ compression)), w)
           | Some decompressor \<Rightarrow>
              (case decompressor monitoring_data of
                 None \<Rightarrow> (Inl (HTTPException 400 ''Decompression of agent data failed''), w)
               | Some decompressed_agent_data \<Rightarrow>
                  (case store_agent_data env (source_path host) decompressed_agent_data (files w) of
                     (Inl e, fs1) \<Rightarrow> (Inl e, w\<lparr>files := fs1\<rparr>)
                   | (Inr _, fs1) \<Rightarrow>
                      (case move_ready_file env u fs1 of
                         (Inl e, fs2) \<Rightarrow> (Inl e, w\<lparr>files := fs2\<rparr>)
                       | (Inr _, fs2) \<Rightarrow>
                           (Inr (Response HTTP_204_NO_CONTENT), w\<lparr>files := fs2\<rparr>))))))"

section \<open>Certificates\<close>

definition validate_uuid_against_csr :: "env \<Rightarrow> uuid \<Rightarrow> CsrField \<Rightarrow> error + unit" where
  "validate_uuid_against_csr env u csr_field =
     (let cn = extract_cn_from_csr env (csr csr_field) in
      if str_uuid u \<noteq> cn then
        Inl (HTTPException HTTP_400_BAD_REQUEST
               (''UUID ('' @ str_uuid u @ '') does not match CN ('' @ cn @ '') of CSR.''))
      else Inr ())"

text \<open>
  The requests to the site. Each is logged; its answer is the one the environment gives. A
  failing request raises the \<open>HTTPException\<close> that is the site's answer.
\<close>

definition controller_certificate_settings ::
  "env \<Rightarrow> HTTPBasicCredentials \<Rightarrow> world \<Rightarrow> (error + nat) \<times> world" where
  "controller_certificate_settings env credentials w =
     (settings_answer env credentials,
      w\<lparr>api_calls := api_calls w @ [ControllerCertificateSettings credentials]\<rparr>)"

definition register ::
  "env \<Rightarrow> HTTPBasicCredentials \<Rightarrow> uuid \<Rightarrow> string \<Rightarrow> world \<Rightarrow> (error + ConnectionMode) \<times> world" where
  "register env credentials u host_name w =
     (register_answer env credentials u host_name,
      w\<lparr>api_calls := api_calls w @ [Register credentials u host_name]\<rparr>)"

definition host_configuration ::
  "env \<Rightarrow> HTTPBasicCredentials \<Rightarrow> string \<Rightarrow> world \<Rightarrow> (error + HostConfiguration) \<times> world" where
  "host_configuration env credentials host_name w =
     (host_configuration_answer env credentials host_name,
      w\<lparr>api_calls := api_calls w @ [GetHostConfiguration credentials host_name]\<rparr>)"

definition link_host_with_uuid ::
  "env \<Rightarrow> HTTPBasicCredentials \<Rightarrow> string \<Rightarrow> uuid \<Rightarrow> world \<Rightarrow> (error + unit) \<times> world" where
  "link_host_with_uuid env credentials host_name u w =
     ((case link_answer env credentials host_name u of Some e \<Rightarrow> Inl e | None \<Rightarrow> Inr ()),
      w\<lparr>api_calls := api_calls w @ [LinkHostWithUuid credentials host_name u]\<rparr>)"

definition cmk_edition ::
  "env \<Rightarrow> HTTPBasicCredentials \<Rightarrow> world \<Rightarrow> (error + CMKEdition) \<times> world" where
  "cmk_edition env credentials w =
     (edition_answer env credentials,
      w\<lparr>api_calls := api_calls w @ [GetEdition credentials]\<rparr>)"

text \<open>
  \<open>_sign_agent_csr\<close>: the lifetime is asked from the site with the internal credentials,
  then the certificate request is signed.
\<close>

definition sign_agent_csr :: "env \<Rightarrow> uuid \<Rightarrow> CsrField \<Rightarrow> world \<Rightarrow> (error + Certificate) \<times> world" where
  "sign_agent_csr env u csr_field w =
     (case controller_certificate_settings env (internal_credentials env) w of
        (Inl e, w1) \<Rightarrow> (Inl e, w1)
      | (Inr lifetime_in_months, w1) \<Rightarrow>
          (Inr (cert_sign_agent_csr env (csr csr_field) lifetime_in_months),
           w1\<lparr>signed := signed w1 @ [(csr csr_field, lifetime_in_months)]\<rparr>))"

text \<open>
  \<open>_pem_serizialized_site_root_cert\<close> under \<open>lru_cache\<close>: a cached value is returned as
  it is; otherwise the body runs on the root certificate of the site as it is now, and its
  value is cached.
\<close>

definition site_root_certificate :: "world \<Rightarrow> Certificate" where
  "site_root_certificate w = root_ca w"

definition pem_serizialized_site_root_cert :: "env \<Rightarrow> world \<Rightarrow> string \<times> world" where
  "pem_serizialized_site_root_cert env w =
     (case pem_cache w of
        Some pem \<Rightarrow> (pem, w)
      | None \<Rightarrow>
          (let pem = serialize_to_pem env (site_root_certificate w)
           in (pem, w\<lparr>pem_cache := Some pem, pem_computed := pem_computed w + 1\<rparr>)))"

section \<open>Registration endpoints\<close>

definition register_existing ::
  "env \<Rightarrow> HTTPBasicCredentials \<Rightarrow> RegisterExistingBody \<Rightarrow> world
     \<Rightarrow> (error + RegisterExistingResponse) \<times> world" where
  "register_existing env credentials registration_body w =
     (case validate_uuid_against_csr env (reb_uuid registration_body) (reb_csr registration_body) of
        Inl e \<Rightarrow> (Inl e, w)
      | Inr _ \<Rightarrow>
         (case pem_serizialized_site_root_cert env w of
            (root_cert, w1) \<Rightarrow>
              (case sign_agent_csr env (reb_uuid registration_body) (reb_csr registration_body) w1 of
                 (Inl e, w2) \<Rightarrow> (Inl e, w2)
               | (Inr cert, w2) \<Rightarrow>
                  (case register env credentials (reb_uuid registration_body)
                          (reb_host_name registration_body) w2 of
                     (Inl e, w3) \<Rightarrow> (Inl e, w3)
                   | (Inr mode, w3) \<Rightarrow>
                       (Inr \<lparr>rer_root_cert = root_cert,
                             rer_agent_cert = serialize_to_pem env cert,
                             rer_connection_mode = mode\<rparr>, w3)))))"

definition validate_registration_request :: "env \<Rightarrow> HostConfiguration \<Rightarrow> error + unit" where
  "validate_registration_request env host_config =
     (if site host_config \<noteq> site_name env then
        Inl (HTTPException HTTP_403_FORBIDDEN
               (''This host is monitored on the site '' @ site host_config @
                '', but you tried to register it at the site '' @ site_name env @ ''.''))
      else if is_cluster host_config then
        Inl (HTTPException HTTP_403_FORBIDDEN
               ''This host is a cluster host. Register its nodes instead.'')
      else Inr ())"

definition register_with_hostname ::
  "env \<Rightarrow> HTTPBasicCredentials \<Rightarrow> RegistrationWithHNBody \<Rightarrow> world \<Rightarrow> (error + Response) \<times> world" where
  "register_with_hostname env credentials registration_body w =
     (case host_configuration env credentials (hnb_host_name registration_body) w of
        (Inl e, w1) \<Rightarrow> (Inl e, w1)
      | (Inr host_config, w1) \<Rightarrow>
         (case validate_registration_request env host_config of
            Inl e \<Rightarrow> (Inl e, w1)
          | Inr _ \<Rightarrow>
             (case link_host_with_uuid env credentials (hnb_host_name registration_body)
                     (hnb_uuid registration_body) w1 of
                (Inl e, w2) \<Rightarrow> (Inl e, w2)
              | (Inr _, w2) \<Rightarrow> (Inr (Response HTTP_204_NO_CONTENT), w2))))"

text \<open>
  Modelled from the spec: the method \<open>R4R.write\<close> of \<open>agent_receiver.utils\<close>, whose code
  is missing. The spec describes it as \<open>put(record)\<close>: the record is written durably into
  the bucket of its status, under the name of its identity, and is published in one step. The
  directory of the bucket is created if missing.
\<close>

definition R4R_write :: "env \<Rightarrow> R4R \<Rightarrow> filesystem \<Rightarrow> (error + unit) \<times> filesystem" where
  "R4R_write env r fs =
     (case mkdir_parents (r4r_dir env @ [status_name (r4r_status r)]) fs of
        Inl e \<Rightarrow> (Inl e, fs)
      | Inr fs1 \<Rightarrow>
         (case map_of fs1 (r4r_path env (r4r_status r) (rfr_uuid (r4r_request r))) of
            Some Dir \<Rightarrow> (Inl IsADirectoryError, fs1)
          | _ \<Rightarrow>
             (Inr (),
              AList.update (r4r_path env (r4r_status r) (rfr_uuid (r4r_request r)))
                (File (fresh_ino fs1) (request_json env (r4r_request r))) fs1)))"

text \<open>
  Modelled from the spec: the method \<open>R4R.read\<close> of \<open>agent_receiver.utils\<close>, whose code
  is missing. The spec describes it as a scan of the known buckets for a record with this
  identity, where absence is a valid outcome (\<open>FileNotFoundError\<close> in the endpoints, here
  \<open>None\<close>). The status of the record found is the bucket it lies in.
\<close>

fun scan_buckets :: "env \<Rightarrow> filesystem \<Rightarrow> uuid \<Rightarrow> RegistrationStatusEnum list \<Rightarrow> R4R option" where
  "scan_buckets env fs u [] = None"
| "scan_buckets env fs u (st # sts) =
     (case read_file fs (r4r_path env st u) of
        None \<Rightarrow> scan_buckets env fs u sts
      | Some b \<Rightarrow>
         (case parse_request env b of
            None \<Rightarrow> scan_buckets env fs u sts
          | Some request \<Rightarrow> Some \<lparr>r4r_status = st, r4r_request = request\<rparr>))"

definition R4R_read :: "env \<Rightarrow> filesystem \<Rightarrow> uuid \<Rightarrow> R4R option" where
  "R4R_read env fs u = scan_buckets env fs u [NEW, DECLINED, READY, DISCOVERABLE]"

definition register_with_labels ::
  "env \<Rightarrow> HTTPBasicCredentials \<Rightarrow> RegistrationWithLabelsBody \<Rightarrow> world \<Rightarrow> (error + Response) \<times> world" where
  "register_with_labels env credentials registration_body w =
     (case cmk_edition env credentials w of
        (Inl e, w1) \<Rightarrow> (Inl e, w1)
      | (Inr edition, w1) \<Rightarrow>
         if \<not> supports_registration_with_labels edition then
           (Inl (HTTPException HTTP_501_NOT_IMPLEMENTED
                   (''The Checkmk '' @ edition_value edition @
                    '' edition does not support registration with agent labels'')), w1)
         else
          (case R4R_write env
                  \<lparr>r4r_status = NEW,
                   r4r_request = \<lparr>rfr_uuid = lb_uuid registration_body,
                                  rfr_username = username credentials,
                                  rfr_agent_labels = lb_agent_labels registration_body,
                                  rejection_notice = None\<rparr>\<rparr> (files w1) of
             (Inl e, fs) \<Rightarrow> (Inl e, w1\<lparr>files := fs\<rparr>)
           | (Inr _, fs) \<Rightarrow> (Inr (Response HTTP_204_NO_CONTENT), w1\<lparr>files := fs\<rparr>)))"

section \<open>Status query and certificate renewal\<close>

definition registration_status :: "env \<Rightarrow> uuid \<Rightarrow> world \<Rightarrow> (error + RegistrationStatus) \<times> world" where
  "registration_status env u w =
     (let r4r = R4R_read env (files w) u in
      case RegisteredHost_of w u of
        None \<Rightarrow>
          (case r4r of
             Some r \<Rightarrow>
               (Inr \<lparr>rs_hostname = None,
                     rs_status = Some (r4r_status r),
                     rs_type = None,
                     rs_message = rejection_notice (r4r_request r)\<rparr>, w)
           | None \<Rightarrow> (Inl (HTTPException 404 ''Host is not registered''), w))
      | Some host \<Rightarrow>
          (Inr \<lparr>rs_hostname = Some (name host),
                rs_status = (case r4r of Some r \<Rightarrow> Some (r4r_status r) | None \<Rightarrow> None),
                rs_type = Some (connection_mode host),
                rs_message = Some ''Host registered''\<rparr>, w))"

definition renew_certificate ::
  "env \<Rightarrow> uuid \<Rightarrow> CertificateRenewalBody \<Rightarrow> world \<Rightarrow> (error + RenewCertResponse) \<times> world" where
  "renew_certificate env u cert_renewal_body w =
     (case validate_uuid_against_csr env u (crb_csr cert_renewal_body) of
        Inl e \<Rightarrow> (Inl e, w)
      | Inr _ \<Rightarrow>
         (case RegisteredHost_of w u of
            None \<Rightarrow> (Inl (HTTPException HTTP_403_FORBIDDEN ''Host is not registered''), w)
          | Some host \<Rightarrow>
             (case sign_agent_csr env u (crb_csr cert_renewal_body) w of
                (Inl e, w1) \<Rightarrow> (Inl e, w1)
              | (Inr agent_cert, w1) \<Rightarrow>
                  (Inr \<lparr>rcr_agent_cert = serialize_to_pem env agent_cert\<rparr>, w1))))"

section \<open>Notions used by the properties\<close>


text \<open>
  One process lifetime, seen from \<open>_pem_serizialized_site_root_cert\<close>: a sequence of calls,
  each preceded by whatever else happened to the world since the previous call. What happens
  in between may change anything, the root certificate of the site included, except the cache
  of the function, which nothing else writes.
\<close>

definition keeps_cache :: "(world \<Rightarrow> world) \<Rightarrow> bool" where
  "keeps_cache change \<longleftrightarrow>
     (\<forall>w. pem_cache (change w) = pem_cache w \<and> pem_computed (change w) = pem_computed w)"

fun root_cert_calls :: "env \<Rightarrow> (world \<Rightarrow> world) list \<Rightarrow> world \<Rightarrow> string list \<times> world" where
  "root_cert_calls env [] w = ([], w)"
| "root_cert_calls env (change # changes) w =
     (case pem_serizialized_site_root_cert env (change w) of
        (pem, w1) \<Rightarrow>
          (case root_cert_calls env changes w1 of
             (pems, w2) \<Rightarrow> (pem # pems, w2)))"

section \<open>A small site\<close>

text \<open>
  A concrete environment and world, used to run the endpoints: a site \<open>mysite\<close> with the
  requests for registration below \<open>var/r4r\<close>, a push host \<open>host1\<close> for the identity
  \<open>u1\<close> with agent output already stored, a pull host for \<open>u2\<close>, a request of \<open>u1\<close> in
  the bucket \<open>READY\<close> and a declined request of the unregistered identity \<open>u3\<close>. The codec \<open>zlib\<close> of this site accepts data that start with the
  byte 120 and returns what follows it.
\<close>

definition example_env :: env where
  "example_env =
     \<lparr>site_name = ''mysite'',
      r4r_dir = [''var'', ''r4r''],
      internal_credentials = \<lparr>username = ''automation'', password = ''secret''\<rparr>,
      extract_cn_from_csr = (\<lambda>c. case c of CSR cn \<Rightarrow> cn),
      cert_sign_agent_csr = (\<lambda>c months. case c of CSR cn \<Rightarrow> Certificate cn),
      serialize_to_pem = (\<lambda>c. case c of Certificate t \<Rightarrow> ''PEM '' @ t),
      settings_answer = (\<lambda>credentials. Inr 12),
      register_answer = (\<lambda>credentials u host_name. Inr PUSH),
      host_configuration_answer =
        (\<lambda>credentials host_name.
           Inr \<lparr>site = (if host_name = ''remote'' then ''othersite'' else ''mysite''),
                is_cluster = (host_name = ''cluster'')\<rparr>),
      link_answer = (\<lambda>credentials host_name u. None),
      edition_answer =
        (\<lambda>credentials.
           Inr \<lparr>edition_value = (if username credentials = ''raw'' then ''Raw'' else ''Cloud''),
                supports_registration_with_labels = (username credentials \<noteq> ''raw'')\<rparr>),
      Decompressor =
        (\<lambda>codec. if codec = ''zlib''
                  then Some (\<lambda>b. case b of [] \<Rightarrow> None | x # xs \<Rightarrow> if x = 120 then Some xs else None)
                  else None),
      request_json = (\<lambda>r. map (\<lambda>ch. of_nat (of_char ch)) (rfr_username r)),
      parse_request =
        (\<lambda>b. case b of
               [] \<Rightarrow> None
             | x # xs \<Rightarrow>
                 Some \<lparr>rfr_uuid = UUID ''u3'', rfr_username = ''alice'', rfr_agent_labels = [],
                       rejection_notice = (if x = 0 then Some ''Declined by the administrator'' else None)\<rparr>),
      buffer_size = 8192,
      random_names = [''k3x9'', ''p0q7'']\<rparr>"

definition example_files :: filesystem where
  "example_files =
     [([''var''], Dir),
      ([''var'', ''r4r''], Dir),
      ([''var'', ''r4r'', ''READY''], Dir),
      ([''var'', ''r4r'', ''READY'', ''u1.json''], File 0 [1, 2]),
      ([''var'', ''r4r'', ''DECLINED''], Dir),
      ([''var'', ''r4r'', ''DECLINED'', ''u3.json''], File 2 [0, 1]),
      ([''var'', ''out''], Dir),
      ([''var'', ''out'', ''u1''], Dir),
      ([''var'', ''out'', ''u1'', ''agent_output''], File 1 [7, 7, 7])]"

definition example_world :: world where
  "example_world =
     \<lparr>files = example_files,
      registry =
        (\<lambda>u. if u = UUID ''u1''
             then Some \<lparr>name = ''host1'', connection_mode = PUSH, source_path = [''var'', ''out'', ''u1'']\<rparr>
             else if u = UUID ''u2''
             then Some \<lparr>name = ''host2'', connection_mode = PULL, source_path = [''var'', ''out'', ''u2'']\<rparr>
             else None),
      api_calls = [],
      signed = [],
      root_ca = Certificate ''root'',
      pem_cache = None,
      pem_computed = 0\<rparr>"

definition u1_dir :: path where
  "u1_dir = [''var'', ''out'', ''u1'']"

definition u1_output :: path where
  "u1_output = [''var'', ''out'', ''u1'', ''agent_output'']"

section \<open>Properties of the file operations\<close>

lemmas fs_defs = mkdir_parents_def mkdir_exist_ok_def NamedTemporaryFile_def is_dir_def
  tf_write_def tf_close_def os_rename_def unlink_missing_ok_def raw_write_def read_file_def





lemma os_rename_Inr:
  "os_rename src dst fs = Inr fs' \<Longrightarrow>
     \<exists>i c. map_of fs src = Some (File i c) \<and> map_of fs' = (map_of fs)(src := None, dst \<mapsto> File i c)"
  by (auto simp: os_rename_def update_conv' delete_conv' split: option.splits node.splits if_splits)


lemma NamedTemporaryFile_Inr:
  assumes "NamedTemporaryFile env dir fs = Inr (tf, fs')"
  shows "map_of fs (tf_name tf) = None" and "tf_ino tf = fresh_ino fs" and "tf_buffer tf = []"
    and "fs' = AList.update (tf_name tf) (File (fresh_ino fs) []) fs"
    and "\<exists>s. tf_name tf = dir @ [''tmp'' @ s]"
    and "is_dir fs dir"
  using assms
  by (auto simp: NamedTemporaryFile_def find_Some_iff split: if_splits option.splits node.splits)



















lemma store_agent_data_steps_InrE:
  assumes "store_agent_data_steps env dir d fs = (Inr (), steps)"
  obtains fs1 tf0 fs2 tf fs3 fs4 fs5 where
    "mkdir_parents dir fs = Inr fs1"
    "NamedTemporaryFile env dir fs1 = Inr (tf0, fs2)"
    "tf_write env tf0 d fs2 = (tf, fs3)"
    "os_rename (tf_name tf) (dir @ [''agent_output'']) fs3 = Inr fs4"
    "unlink_missing_ok (tf_name tf) fs4 = Inr fs5"
    "steps = [fs1, fs2, fs3, fs4, fs5, tf_close tf fs5]"
  using assms
  by (auto simp: store_agent_data_steps_def Let_def split: sum.splits prod.splits)

lemma small_payload_renamed_empty:
  assumes "store_agent_data_steps env dir d fs = (Inr (), steps)"
    and "length d \<le> buffer_size env"
  shows "read_file (steps ! 3) (dir @ [''agent_output'']) = Some []"
proof -
  from assms(1) obtain fs1 tf0 fs2 tf fs3 fs4 fs5 where
    nt: "NamedTemporaryFile env dir fs1 = Inr (tf0, fs2)" and
    wr: "tf_write env tf0 d fs2 = (tf, fs3)" and
    rn: "os_rename (tf_name tf) (dir @ [''agent_output'']) fs3 = Inr fs4" and
    steps: "steps = [fs1, fs2, fs3, fs4, fs5, tf_close tf fs5]"
    by (rule store_agent_data_steps_InrE)
  note t = NamedTemporaryFile_Inr[OF nt]
  have fs2: "map_of fs2 (tf_name tf0) = Some (File (tf_ino tf0) [])"
    using t(2,4) by (simp add: update_conv')
  from wr assms(2) t(3) have "fs3 = fs2" "tf_name tf = tf_name tf0"
    by (auto simp: tf_write_def)
  with os_rename_Inr[OF rn] fs2 have "map_of fs4 (dir @ [''agent_output'']) = Some (File (tf_ino tf0) [])"
    by auto
  then show ?thesis using steps by (simp add: read_file_def)
qed


lemma cached_calls:
  "pem_cache w = Some pem \<Longrightarrow> \<forall>change \<in> set changes. keeps_cache change \<Longrightarrow>
     fst (root_cert_calls env changes w) = replicate (length changes) pem \<and>
     pem_computed (snd (root_cert_calls env changes w)) = pem_computed w \<and>
     pem_cache (snd (root_cert_calls env changes w)) = Some pem"
proof (induction changes arbitrary: w)
  case Nil
  then show ?case by simp
next
  case (Cons change changes)
  from Cons.prems have k: "pem_cache (change w) = Some pem" "pem_computed (change w) = pem_computed w"
    by (simp_all add: keeps_cache_def)
  then have call: "pem_serizialized_site_root_cert env (change w) = (pem, change w)"
    by (simp add: pem_serizialized_site_root_cert_def)
  from Cons.IH[of "change w"] k Cons.prems(2) call show ?case
    by (auto split: prod.splits)
qed

section \<open>Properties of the endpoints\<close>

text \<open>
  Claim C1. Whenever the Common Name of the certificate request differs from \<open>str(uuid)\<close>,
  both \<open>register_existing\<close> and \<open>renew_certificate\<close> raise an \<open>HTTPException\<close> with
  status 400 whose detail quotes the UUID and the Common Name, and they return the world as
  they found it: nothing was signed, no file was written, no request was sent to the site
  and the cache is untouched.
\<close>

theorem identity_mismatch_rejected:
  assumes "extract_cn_from_csr env (csr c) \<noteq> str_uuid u"
  shows "register_existing env credentials \<lparr>reb_uuid = u, reb_csr = c, reb_host_name = h\<rparr> w =
           (Inl (HTTPException 400
                  (''UUID ('' @ str_uuid u @ '') does not match CN ('' @
                   extract_cn_from_csr env (csr c) @ '') of CSR.'')), w)
         \<and> renew_certificate env u \<lparr>crb_csr = c\<rparr> w =
           (Inl (HTTPException 400
                  (''UUID ('' @ str_uuid u @ '') does not match CN ('' @
                   extract_cn_from_csr env (csr c) @ '') of CSR.'')), w)"
  using assms
  by (auto simp: register_existing_def renew_certificate_def validate_uuid_against_csr_def
        HTTP_400_BAD_REQUEST_def Let_def)

theorem identity_mismatch_rejected_witness:
  "extract_cn_from_csr example_env (csr \<lparr>csr = CSR ''u1''\<rparr>) \<noteq> str_uuid (UUID ''u2'')
   \<and> register_existing example_env \<lparr>username = ''alice'', password = ''pw''\<rparr>
        \<lparr>reb_uuid = UUID ''u2'', reb_csr = \<lparr>csr = CSR ''u1''\<rparr>, reb_host_name = ''host2''\<rparr>
        example_world =
       (Inl (HTTPException 400 ''UUID (u2) does not match CN (u1) of CSR.''), example_world)
   \<and> renew_certificate example_env (UUID ''u2'') \<lparr>crb_csr = \<lparr>csr = CSR ''u1''\<rparr>\<rparr> example_world =
       (Inl (HTTPException 400 ''UUID (u2) does not match CN (u1) of CSR.''), example_world)"
proof -
  have h: "extract_cn_from_csr example_env (csr \<lparr>csr = CSR ''u1''\<rparr>) \<noteq> str_uuid (UUID ''u2'')"
    by (simp add: example_env_def)
  from identity_mismatch_rejected[OF h, of "\<lparr>username = ''alice'', password = ''pw''\<rparr>" "''host2''" example_world] h
  show ?thesis by (simp add: example_env_def)
qed



text \<open>
  Claim C3. The claim is that the final path never shows anything but the previous or the new
  complete payload. Here \<open>_store_agent_data\<close> runs without error on the small site,
  replacing the payload \<open>[7, 7, 7]\<close> by \<open>[4, 5, 6]\<close>. The list gives what a reader of
  \<open>agent_output\<close> finds before the call and after each file operation: after
  \<open>os.rename\<close> and after \<open>unlink\<close> the file is empty, because the renaming happens
  inside the \<open>with\<close> block, while the data still sit in the buffer of the file object;
  they reach the file only with the \<open>close\<close> that ends the block. The lemma
  \<open>small_payload_renamed_empty\<close> shows the same for every payload that fits the buffer.
\<close>

theorem store_agent_data_rename_before_flush:
  "fst (store_agent_data_steps example_env u1_dir [4, 5, 6] example_files) = Inr ()
   \<and> map (\<lambda>fs. read_file fs u1_output)
        (example_files # snd (store_agent_data_steps example_env u1_dir [4, 5, 6] example_files)) =
       [Some [7, 7, 7], Some [7, 7, 7], Some [7, 7, 7], Some [7, 7, 7], Some [], Some [], Some [4, 5, 6]]"
  by (simp add: example_env_def example_files_def store_agent_data_steps_def u1_dir_def
        u1_output_def fs_defs)



text \<open>
  Claim C5. The checks of \<open>agent_data\<close> fail in their order, and each failure returns the
  world unchanged, so nothing is stored: an unregistered identity gives 403 "Host is not
  registered" whatever the codec and the data are; a registered host that is not a push host
  gives 403; then an unknown codec gives 400 with the name of the codec in the detail; then
  data the codec rejects give 400.
\<close>

theorem agent_data_failures:
  "(RegisteredHost_of w u = None \<longrightarrow>
      agent_data env u compression monitoring_data w =
        (Inl (HTTPException 403 ''Host is not registered''), w))
   \<and> (\<forall>host. RegisteredHost_of w u = Some host \<and> connection_mode host \<noteq> PUSH \<longrightarrow>
      agent_data env u compression monitoring_data w =
        (Inl (HTTPException 403 ''Host is not a push host''), w))
   \<and> (\<forall>host. RegisteredHost_of w u = Some host \<and> connection_mode host = PUSH \<and>
        Decompressor env compression = None \<longrightarrow>
      agent_data env u compression monitoring_data w =
        (Inl (HTTPException 400 (''Unsupported compression algorithm: '' @ compression)), w))
   \<and> (\<forall>host decompressor. RegisteredHost_of w u = Some host \<and> connection_mode host = PUSH \<and>
        Decompressor env compression = Some decompressor \<and> decompressor monitoring_data = None \<longrightarrow>
      agent_data env u compression monitoring_data w =
        (Inl (HTTPException 400 ''Decompression of agent data failed''), w))"
  by (simp add: agent_data_def HTTP_403_FORBIDDEN_def)

theorem agent_data_failures_witness:
  "RegisteredHost_of example_world (UUID ''u3'') = None
   \<and> agent_data example_env (UUID ''u3'') ''bogus'' [1] example_world =
       (Inl (HTTPException 403 ''Host is not registered''), example_world)
   \<and> agent_data example_env (UUID ''u2'') ''bogus'' [1] example_world =
       (Inl (HTTPException 403 ''Host is not a push host''), example_world)
   \<and> agent_data example_env (UUID ''u1'') ''bogus'' [1] example_world =
       (Inl (HTTPException 400 ''Unsupported compression algorithm: bogus''), example_world)
   \<and> agent_data example_env (UUID ''u1'') ''zlib'' [1] example_world =
       (Inl (HTTPException 400 ''Decompression of agent data failed''), example_world)"
  using agent_data_failures[of example_world "UUID ''u3''" example_env "''bogus''" "[1]"]
        agent_data_failures[of example_world "UUID ''u2''" example_env "''bogus''" "[1]"]
        agent_data_failures[of example_world "UUID ''u1''" example_env "''bogus''" "[1]"]
        agent_data_failures[of example_world "UUID ''u1''" example_env "''zlib''" "[1]"]
  by (simp add: RegisteredHost_of_def example_world_def example_env_def)

text \<open>
  Claim C6. \<open>registration_status\<close> never changes the world, and answers by this rule: for
  a registered host it reports the host name, the connection mode and the message "Host
  registered", whether or not a request record is left over (the status of such a record is
  passed along); for an unregistered identity with a request record it reports the status of
  the record and its rejection notice; with neither, it raises 404.
\<close>

theorem registration_status_merge:
  "(\<forall>host. RegisteredHost_of w u = Some host \<longrightarrow>
      registration_status env u w =
        (Inr \<lparr>rs_hostname = Some (name host),
              rs_status = map_option r4r_status (R4R_read env (files w) u),
              rs_type = Some (connection_mode host),
              rs_message = Some ''Host registered''\<rparr>, w))
   \<and> (\<forall>r. RegisteredHost_of w u = None \<and> R4R_read env (files w) u = Some r \<longrightarrow>
      registration_status env u w =
        (Inr \<lparr>rs_hostname = None,
              rs_status = Some (r4r_status r),
              rs_type = None,
              rs_message = rejection_notice (r4r_request r)\<rparr>, w))
   \<and> (RegisteredHost_of w u = None \<and> R4R_read env (files w) u = None \<longrightarrow>
      registration_status env u w = (Inl (HTTPException 404 ''Host is not registered''), w))"
  by (auto simp: registration_status_def Let_def split: option.splits)

theorem registration_status_merge_witness:
  "RegisteredHost_of example_world (UUID ''u1'') = Some \<lparr>name = ''host1'', connection_mode = PUSH, source_path = [''var'', ''out'', ''u1'']\<rparr>
   \<and> registration_status example_env (UUID ''u1'') example_world =
       (Inr \<lparr>rs_hostname = Some ''host1'', rs_status = Some READY, rs_type = Some PUSH,
             rs_message = Some ''Host registered''\<rparr>, example_world)
   \<and> registration_status example_env (UUID ''u2'') example_world =
       (Inr \<lparr>rs_hostname = Some ''host2'', rs_status = None, rs_type = Some PULL,
             rs_message = Some ''Host registered''\<rparr>, example_world)
   \<and> registration_status example_env (UUID ''u3'') example_world =
       (Inr \<lparr>rs_hostname = None, rs_status = Some DECLINED, rs_type = None,
             rs_message = Some ''Declined by the administrator''\<rparr>, example_world)
   \<and> registration_status example_env (UUID ''u4'') example_world =
       (Inl (HTTPException 404 ''Host is not registered''), example_world)"
proof -
  have r1: "R4R_read example_env (files example_world) (UUID ''u1'') =
              Some \<lparr>r4r_status = READY,
                    r4r_request = \<lparr>rfr_uuid = UUID ''u3'', rfr_username = ''alice'', rfr_agent_labels = [],
                                   rejection_notice = None\<rparr>\<rparr>"
    by (simp add: R4R_read_def r4r_path_def read_file_def example_env_def example_world_def example_files_def)
  have r2: "R4R_read example_env (files example_world) (UUID ''u2'') = None"
    by (simp add: R4R_read_def r4r_path_def read_file_def example_env_def example_world_def example_files_def)
  have r3: "R4R_read example_env (files example_world) (UUID ''u3'') =
              Some \<lparr>r4r_status = DECLINED,
                    r4r_request = \<lparr>rfr_uuid = UUID ''u3'', rfr_username = ''alice'', rfr_agent_labels = [],
                                   rejection_notice = Some ''Declined by the administrator''\<rparr>\<rparr>"
    by (simp add: R4R_read_def r4r_path_def read_file_def example_env_def example_world_def example_files_def)
  have r4: "R4R_read example_env (files example_world) (UUID ''u4'') = None"
    by (simp add: R4R_read_def r4r_path_def read_file_def example_env_def example_world_def example_files_def)
  have h1: "RegisteredHost_of example_world (UUID ''u1'') = Some \<lparr>name = ''host1'', connection_mode = PUSH, source_path = [''var'', ''out'', ''u1'']\<rparr>"
    and h2: "RegisteredHost_of example_world (UUID ''u2'') = Some \<lparr>name = ''host2'', connection_mode = PULL, source_path = [''var'', ''out'', ''u2'']\<rparr>"
    and h3: "RegisteredHost_of example_world (UUID ''u3'') = None"
    and h4: "RegisteredHost_of example_world (UUID ''u4'') = None"
    by (simp_all add: RegisteredHost_of_def example_world_def)
  show ?thesis
    using registration_status_merge[of example_world "UUID ''u1''" example_env]
          registration_status_merge[of example_world "UUID ''u2''" example_env]
          registration_status_merge[of example_world "UUID ''u3''" example_env]
          registration_status_merge[of example_world "UUID ''u4''" example_env]
    by (simp add: r1 r2 r3 r4 h1 h2 h3 h4)
qed

text \<open>
  Claim C7. In a process that starts with an empty cache, any sequence of calls of
  \<open>_pem_serizialized_site_root_cert\<close> returns the same string every time, namely the
  serialization of the root certificate found at the first call, even if the site's root
  certificate changes between the calls; and the body of the function has run exactly once
  at the end.
\<close>

theorem root_cert_computed_once:
  assumes "pem_cache w = None" and "pem_computed w = 0"
    and "\<forall>change \<in> set (change # changes). keeps_cache change"
  shows "fst (root_cert_calls env (change # changes) w) =
           replicate (Suc (length changes)) (serialize_to_pem env (site_root_certificate (change w)))
         \<and> pem_computed (snd (root_cert_calls env (change # changes) w)) = 1"
proof -
  from assms have k: "pem_cache (change w) = None" "pem_computed (change w) = 0"
    by (simp_all add: keeps_cache_def)
  define pem where "pem = serialize_to_pem env (site_root_certificate (change w))"
  define w1 where "w1 = (change w)\<lparr>pem_cache := Some pem, pem_computed := 1\<rparr>"
  have call: "pem_serizialized_site_root_cert env (change w) = (pem, w1)"
    using k by (simp add: pem_serizialized_site_root_cert_def pem_def w1_def Let_def)
  have "pem_cache w1 = Some pem" "pem_computed w1 = 1" by (simp_all add: w1_def)
  with cached_calls[of w1 pem changes env] assms(3) call show ?thesis
    by (auto simp: pem_def split: prod.splits)
qed

theorem root_cert_computed_once_witness:
  "pem_cache example_world = None \<and> pem_computed example_world = 0
   \<and> keeps_cache (\<lambda>w. w)
   \<and> keeps_cache (\<lambda>w. w\<lparr>root_ca := Certificate ''replaced''\<rparr>)
   \<and> keeps_cache (\<lambda>w. w\<lparr>root_ca := Certificate ''replaced again''\<rparr>)
   \<and> fst (root_cert_calls example_env
            [\<lambda>w. w, \<lambda>w. w\<lparr>root_ca := Certificate ''replaced''\<rparr>,
             \<lambda>w. w\<lparr>root_ca := Certificate ''replaced again''\<rparr>] example_world) =
       [''PEM root'', ''PEM root'', ''PEM root'']
   \<and> pem_computed (snd (root_cert_calls example_env
            [\<lambda>w. w, \<lambda>w. w\<lparr>root_ca := Certificate ''replaced''\<rparr>,
             \<lambda>w. w\<lparr>root_ca := Certificate ''replaced again''\<rparr>] example_world)) = 1"
proof -
  have h1: "pem_cache example_world = None" and h2: "pem_computed example_world = 0"
    by (simp_all add: example_world_def)
  have h3: "\<forall>change \<in> set [\<lambda>w. w, \<lambda>w. w\<lparr>root_ca := Certificate ''replaced''\<rparr>,
                        \<lambda>w. w\<lparr>root_ca := Certificate ''replaced again''\<rparr>]. keeps_cache change"
    by (simp add: keeps_cache_def)
  have v: "serialize_to_pem example_env (site_root_certificate example_world) = ''PEM root''"
    by (simp add: example_env_def example_world_def site_root_certificate_def)
  from root_cert_computed_once[OF h1 h2 h3, of example_env] h1 h2 h3 v
  show ?thesis by (simp add: numeral_3_eq_3)
qed

text \<open>
  Claim C8. If the edition of the site does not support registration with labels,
  \<open>register_with_labels\<close> raises 501 and leaves the files as they were; the only effect
  is the query for the edition. If the edition supports it, the endpoint writes the record
  with status \<open>NEW\<close>, the identity, the name of the requesting user and the submitted
  labels; when the write returns, the response is 204 and the file of the record in the
  bucket \<open>NEW\<close> holds the JSON form of that request.
\<close>

theorem register_with_labels_edition:
  "(\<forall>edition. edition_answer env credentials = Inr edition \<and>
        \<not> supports_registration_with_labels edition \<longrightarrow>
      register_with_labels env credentials \<lparr>lb_uuid = u, lb_agent_labels = labels\<rparr> w =
        (Inl (HTTPException 501
               (''The Checkmk '' @ edition_value edition @
                '' edition does not support registration with agent labels'')),
         w\<lparr>api_calls := api_calls w @ [GetEdition credentials]\<rparr>))
   \<and> (\<forall>edition fs'. edition_answer env credentials = Inr edition \<and>
        supports_registration_with_labels edition \<and>
        R4R_write env
          \<lparr>r4r_status = NEW,
           r4r_request = \<lparr>rfr_uuid = u, rfr_username = username credentials,
                          rfr_agent_labels = labels, rejection_notice = None\<rparr>\<rparr> (files w) = (Inr (), fs') \<longrightarrow>
      register_with_labels env credentials \<lparr>lb_uuid = u, lb_agent_labels = labels\<rparr> w =
        (Inr (Response 204), w\<lparr>api_calls := api_calls w @ [GetEdition credentials], files := fs'\<rparr>)
      \<and> read_file fs' (r4r_dir env @ [''NEW'', str_uuid u @ ''.json'']) =
          Some (request_json env \<lparr>rfr_uuid = u, rfr_username = username credentials,
                                  rfr_agent_labels = labels, rejection_notice = None\<rparr>))"
  by (auto simp: register_with_labels_def cmk_edition_def HTTP_501_NOT_IMPLEMENTED_def
        HTTP_204_NO_CONTENT_def R4R_write_def r4r_path_def read_file_def update_conv'
        split: sum.splits option.splits node.splits)

theorem register_with_labels_edition_witness:
  "edition_answer example_env \<lparr>username = ''raw'', password = ''pw''\<rparr> =
     Inr \<lparr>edition_value = ''Raw'', supports_registration_with_labels = False\<rparr>
   \<and> register_with_labels example_env \<lparr>username = ''raw'', password = ''pw''\<rparr>
        \<lparr>lb_uuid = UUID ''u6'', lb_agent_labels = [(''os'', ''linux'')]\<rparr> example_world =
       (Inl (HTTPException 501 ''The Checkmk Raw edition does not support registration with agent labels''),
        example_world\<lparr>api_calls := [GetEdition \<lparr>username = ''raw'', password = ''pw''\<rparr>]\<rparr>)
   \<and> edition_answer example_env \<lparr>username = ''bob'', password = ''pw''\<rparr> =
     Inr \<lparr>edition_value = ''Cloud'', supports_registration_with_labels = True\<rparr>
   \<and> register_with_labels example_env \<lparr>username = ''bob'', password = ''pw''\<rparr>
        \<lparr>lb_uuid = UUID ''u6'', lb_agent_labels = [(''os'', ''linux'')]\<rparr> example_world =
       (Inr (Response 204),
        example_world\<lparr>api_calls := [GetEdition \<lparr>username = ''bob'', password = ''pw''\<rparr>],
          files := example_files @
            [([''var'', ''r4r'', ''NEW''], Dir),
             ([''var'', ''r4r'', ''NEW'', ''u6.json''], File 3 [98, 111, 98])]\<rparr>)
   \<and> read_file (example_files @
            [([''var'', ''r4r'', ''NEW''], Dir),
             ([''var'', ''r4r'', ''NEW'', ''u6.json''], File 3 [98, 111, 98])])
         [''var'', ''r4r'', ''NEW'', ''u6.json''] = Some [98, 111, 98]"
proof -
  have e1: "edition_answer example_env \<lparr>username = ''raw'', password = ''pw''\<rparr> =
     Inr \<lparr>edition_value = ''Raw'', supports_registration_with_labels = False\<rparr>"
    and e2: "edition_answer example_env \<lparr>username = ''bob'', password = ''pw''\<rparr> =
     Inr \<lparr>edition_value = ''Cloud'', supports_registration_with_labels = True\<rparr>"
    by (simp_all add: example_env_def)
  have wr: "R4R_write example_env
          \<lparr>r4r_status = NEW,
           r4r_request = \<lparr>rfr_uuid = UUID ''u6'', rfr_username = username \<lparr>username = ''bob'', password = ''pw''\<rparr>,
                          rfr_agent_labels = [(''os'', ''linux'')], rejection_notice = None\<rparr>\<rparr>
          (files example_world) =
        (Inr (), example_files @
            [([''var'', ''r4r'', ''NEW''], Dir),
             ([''var'', ''r4r'', ''NEW'', ''u6.json''], File 3 [98, 111, 98])])"
    by (simp add: R4R_write_def r4r_path_def example_env_def example_world_def example_files_def
          mkdir_parents_def)
  from register_with_labels_edition[of example_env "\<lparr>username = ''raw'', password = ''pw''\<rparr>"
          "UUID ''u6''" "[(''os'', ''linux'')]" example_world]
       register_with_labels_edition[of example_env "\<lparr>username = ''bob'', password = ''pw''\<rparr>"
          "UUID ''u6''" "[(''os'', ''linux'')]" example_world]
       e1 e2 wr
  show ?thesis by (simp add: example_env_def example_world_def)
qed

text \<open>
  Claim C9. With the configuration of the host as the site reports it:
  \<open>register_with_hostname\<close> raises 403 if the host is monitored on another site, and 403
  if it is a cluster host; in both cases the only request sent to the site is the query for
  the configuration, so the host is not linked. If both checks pass and the site accepts the
  link, the request to link host and identity is sent and the response is 204. In no case a
  certificate is signed or a file written.
\<close>

theorem register_with_hostname_checks:
  "(\<forall>host_config. host_configuration_answer env credentials h = Inr host_config \<and>
        site host_config \<noteq> site_name env \<longrightarrow>
      register_with_hostname env credentials \<lparr>hnb_uuid = u, hnb_host_name = h\<rparr> w =
        (Inl (HTTPException 403
               (''This host is monitored on the site '' @ site host_config @
                '', but you tried to register it at the site '' @ site_name env @ ''.'')),
         w\<lparr>api_calls := api_calls w @ [GetHostConfiguration credentials h]\<rparr>))
   \<and> (\<forall>host_config. host_configuration_answer env credentials h = Inr host_config \<and>
        is_cluster host_config \<longrightarrow>
      register_with_hostname env credentials \<lparr>hnb_uuid = u, hnb_host_name = h\<rparr> w =
        (Inl (HTTPException 403
               (if site host_config \<noteq> site_name env
                then ''This host is monitored on the site '' @ site host_config @
                     '', but you tried to register it at the site '' @ site_name env @ ''.''
                else ''This host is a cluster host. Register its nodes instead.'')),
         w\<lparr>api_calls := api_calls w @ [GetHostConfiguration credentials h]\<rparr>))
   \<and> (\<forall>host_config. host_configuration_answer env credentials h = Inr host_config \<and>
        site host_config = site_name env \<and> \<not> is_cluster host_config \<and>
        link_answer env credentials h u = None \<longrightarrow>
      register_with_hostname env credentials \<lparr>hnb_uuid = u, hnb_host_name = h\<rparr> w =
        (Inr (Response 204),
         w\<lparr>api_calls := api_calls w @
              [GetHostConfiguration credentials h, LinkHostWithUuid credentials h u]\<rparr>))
   \<and> signed (snd (register_with_hostname env credentials \<lparr>hnb_uuid = u, hnb_host_name = h\<rparr> w)) = signed w
   \<and> files (snd (register_with_hostname env credentials \<lparr>hnb_uuid = u, hnb_host_name = h\<rparr> w)) = files w"
  by (auto simp: register_with_hostname_def host_configuration_def link_host_with_uuid_def
        validate_registration_request_def HTTP_403_FORBIDDEN_def HTTP_204_NO_CONTENT_def
        split: sum.splits option.splits)

theorem register_with_hostname_checks_witness:
  "host_configuration_answer example_env \<lparr>username = ''alice'', password = ''pw''\<rparr> ''remote'' =
     Inr \<lparr>site = ''othersite'', is_cluster = False\<rparr>
   \<and> register_with_hostname example_env \<lparr>username = ''alice'', password = ''pw''\<rparr>
        \<lparr>hnb_uuid = UUID ''u5'', hnb_host_name = ''remote''\<rparr> example_world =
       (Inl (HTTPException 403
          ''This host is monitored on the site othersite, but you tried to register it at the site mysite.''),
        example_world\<lparr>api_calls := [GetHostConfiguration \<lparr>username = ''alice'', password = ''pw''\<rparr> ''remote'']\<rparr>)
   \<and> register_with_hostname example_env \<lparr>username = ''alice'', password = ''pw''\<rparr>
        \<lparr>hnb_uuid = UUID ''u5'', hnb_host_name = ''cluster''\<rparr> example_world =
       (Inl (HTTPException 403 ''This host is a cluster host. Register its nodes instead.''),
        example_world\<lparr>api_calls := [GetHostConfiguration \<lparr>username = ''alice'', password = ''pw''\<rparr> ''cluster'']\<rparr>)
   \<and> register_with_hostname example_env \<lparr>username = ''alice'', password = ''pw''\<rparr>
        \<lparr>hnb_uuid = UUID ''u5'', hnb_host_name = ''host5''\<rparr> example_world =
       (Inr (Response 204),
        example_world\<lparr>api_calls :=
          [GetHostConfiguration \<lparr>username = ''alice'', password = ''pw''\<rparr> ''host5'',
           LinkHostWithUuid \<lparr>username = ''alice'', password = ''pw''\<rparr> ''host5'' (UUID ''u5'')]\<rparr>)"
  using register_with_hostname_checks[of example_env "\<lparr>username = ''alice'', password = ''pw''\<rparr>" "''remote''" "UUID ''u5''" example_world]
        register_with_hostname_checks[of example_env "\<lparr>username = ''alice'', password = ''pw''\<rparr>" "''cluster''" "UUID ''u5''" example_world]
        register_with_hostname_checks[of example_env "\<lparr>username = ''alice'', password = ''pw''\<rparr>" "''host5''" "UUID ''u5''" example_world]
  by (simp add: example_env_def example_world_def)



end
